theory Spec2Isabelle
  imports Complex_Main
begin

section \<open>Python values, exceptions and builtins used by app.py\<close>

text \<open>
  The values a user profile can hold (\<open>Dict[str, Union[int, float, str]]\<close>, with JSON
  booleans, which Python treats as a subclass of \<open>int\<close>). \<open>PyFloat\<close> stands for a
  Python float or a numpy \<open>float64\<close>: a finite double is modelled by the real number it
  denotes, and every operation on doubles rounds its exact result to the nearest double
  (section Double arithmetic). NaN and the infinities are not modelled.
\<close>

datatype pyval = PyInt int | PyFloat real | PyStr string | PyBool bool

text \<open>
  The exceptions the code can meet. \<open>KeyError\<close> carries the keys that were not found;
  \<open>ArtifactError\<close> stands for whatever \<open>joblib.load\<close> or a loaded pipeline raises.
\<close>

datatype py_error =
    KeyError "string list"
  | TypeError
  | ValueError
  | IndexError
  | OverflowError
  | ArtifactError string

type_synonym profile = "string \<rightharpoonup> pyval"

text \<open>\<open>d[k]\<close> on a dict.\<close>

definition getitem :: "profile \<Rightarrow> string \<Rightarrow> py_error + pyval" where
  "getitem d k = (case d k of None \<Rightarrow> Inl (KeyError [k]) | Some v \<Rightarrow> Inr v)"

text \<open>\<open>d.get(k, default)\<close> on a dict.\<close>

definition dict_get :: "profile \<Rightarrow> string \<Rightarrow> pyval \<Rightarrow> pyval" where
  "dict_get d k dflt = (case d k of None \<Rightarrow> dflt | Some v \<Rightarrow> v)"

section \<open>Double arithmetic\<close>

text \<open>Rounding to the nearest integer, an exact tie going to the even one.\<close>

definition round_half_even :: "real \<Rightarrow> int" where
  "round_half_even x =
     (let f = \<lfloor>x\<rfloor>; d = x - of_int f
      in if d < 1 / 2 then f
         else if 1 / 2 < d then f + 1
         else if even f then f else f + 1)"

definition pow2 :: "int \<Rightarrow> real" where
  "pow2 k = (if 0 \<le> k then 2 ^ nat k else 1 / 2 ^ nat (- k))"

text \<open>
  The binary exponent of a double: the \<open>e\<close> with \<open>2 ^ e \<le> |x| < 2 ^ (e + 1)\<close>, found by
  halving or doubling, and kept within the exponent range of binary64 (from -1022, where
  the subnormal numbers begin, to 1023).
\<close>

fun exponent_up :: "nat \<Rightarrow> real \<Rightarrow> int" where
  "exponent_up fuel a = (if fuel = 0 \<or> a < 2 then 0 else 1 + exponent_up (fuel - 1) (a / 2))"

fun exponent_down :: "nat \<Rightarrow> real \<Rightarrow> int" where
  "exponent_down fuel a =
     (if fuel = 0 \<or> 1 \<le> a then 0 else exponent_down (fuel - 1) (a * 2) - 1)"

declare exponent_up.simps [simp del]

declare exponent_down.simps [simp del]

definition binary_exponent :: "real \<Rightarrow> int" where
  "binary_exponent x =
     (if 1 \<le> \<bar>x\<bar> then exponent_up 1023 \<bar>x\<bar> else exponent_down 1022 \<bar>x\<bar>)"

text \<open>
  \<open>fl x\<close>: the double nearest to the real \<open>x\<close> (IEEE 754 binary64, round to nearest,
  ties to even): \<open>x\<close> is rounded to a multiple of the unit in the last place of its
  binade, 53 significant bits. A double is a fixed point of \<open>fl\<close>. A result of magnitude
  \<open>2 ^ 1024\<close> or more is beyond the largest double.
\<close>

definition fl :: "real \<Rightarrow> real" where
  "fl x =
     (if x = 0 then 0
      else (let ulp = pow2 (binary_exponent x - 52)
            in of_int (round_half_even (x / ulp)) * ulp))"

text \<open>
  The conversion of an \<open>int\<close> operand to a float, as in \<open>7.0 - n\<close> or \<open>x + n\<close>:
  correctly rounded, \<open>OverflowError\<close> when the integer is beyond the double range.
\<close>

definition float_of_int :: "int \<Rightarrow> py_error + real" where
  "float_of_int n =
     (if 2 ^ 1024 \<le> \<bar>fl (of_int n)\<bar> then Inl OverflowError else Inr (fl (of_int n)))"

text \<open>
  \<open>v + n\<close> for an integer \<open>n\<close>: integer addition is exact and unbounded; a float
  operand makes it a double addition, after the conversion of \<open>n\<close>; a string operand
  raises \<open>TypeError\<close>. A sum beyond the largest double, an infinity in the code, is
  kept as the rounded real.
\<close>

fun py_add_int :: "pyval \<Rightarrow> int \<Rightarrow> py_error + pyval" where
  "py_add_int (PyInt a) n = Inr (PyInt (a + n))"
| "py_add_int (PyBool b) n = Inr (PyInt (of_bool b + n))"
| "py_add_int (PyFloat x) n =
     (case float_of_int n of Inl e \<Rightarrow> Inl e | Inr y \<Rightarrow> Inr (PyFloat (fl (x + y))))"
| "py_add_int (PyStr s) n = Inl TypeError"

text \<open>
  The value of an operand in the float comparisons and subtractions of
  \<open>predict_health_increase\<close>: a string raises \<open>TypeError\<close> at the first comparison, an
  \<open>int\<close> is converted to a float by the subtraction, which raises \<open>OverflowError\<close> when
  the integer is beyond the double range (the comparisons before it compare the integer
  exactly, and agree with the comparisons of the converted value, since 7.0 and 8.5 lie
  between integers that are doubles).
\<close>

fun py_number :: "pyval \<Rightarrow> py_error + real" where
  "py_number (PyInt a) = float_of_int a"
| "py_number (PyBool b) = Inr (of_bool b)"
| "py_number (PyFloat x) = Inr x"
| "py_number (PyStr s) = Inl TypeError"

text \<open>
  \<open>int(v)\<close>: truncation toward zero on a float. The code applies it to the result of
  \<open>py_add_int\<close> only, which is never a string; \<open>int\<close> of a string that is not a
  numeral raises \<open>ValueError\<close>.
\<close>

definition trunc :: "real \<Rightarrow> int" where
  "trunc x = (if 0 \<le> x then \<lfloor>x\<rfloor> else \<lceil>x\<rceil>)"

fun py_int :: "pyval \<Rightarrow> py_error + int" where
  "py_int (PyInt a) = Inr a"
| "py_int (PyBool b) = Inr (of_bool b)"
| "py_int (PyFloat x) = Inr (trunc x)"
| "py_int (PyStr s) = Inl ValueError"

text \<open>
  \<open>round(x, ndigits)\<close> on a float: the exact value of \<open>x\<close> is rounded to \<open>ndigits\<close>
  decimals, an exact tie going to the even digit, and the decimal result is converted to
  the nearest double.
\<close>

definition py_round :: "real \<Rightarrow> nat \<Rightarrow> real" where
  "py_round x ndigits = fl (of_int (round_half_even (x * 10 ^ ndigits)) / 10 ^ ndigits)"

text \<open>\<open>xs[0]\<close> and \<open>xs[i]\<close> on a sequence.\<close>

definition getindex :: "'a list \<Rightarrow> nat \<Rightarrow> py_error + 'a" where
  "getindex xs i = (if i < length xs then Inr (xs ! i) else Inl IndexError)"

section \<open>The health heuristic\<close>


text \<open>
  The heuristic as the interpreter evaluates it on a double: the same branches, each
  subtraction, multiplication, division and addition rounded to a double. This is the
  function \<open>predict_future_twin\<close> calls.
\<close>

definition predict_health_increase_double :: "real \<Rightarrow> real" where
  "predict_health_increase_double avg_sleep_hours =
     (let base_factor = 1.0;
          optimal_sleep_min = 7.0;
          optimal_sleep_max = 8.5;
          max_increase_percent = 10.0;
          increase =
            (if optimal_sleep_min \<le> avg_sleep_hours \<and> avg_sleep_hours \<le> optimal_sleep_max
             then max_increase_percent
             else if avg_sleep_hours < optimal_sleep_min
             then max 0 (fl (max_increase_percent
                    - fl (fl (optimal_sleep_min - avg_sleep_hours) * 5)))
             else max 0 (fl (max_increase_percent
                    - fl (fl (avg_sleep_hours - optimal_sleep_max) * 2))))
      in fl (base_factor + fl (increase / 100.0)))"

section \<open>Predictor artifacts and the effects of a call\<close>

text \<open>
  A row of the one-row DataFrame restricted to the selected columns, in their order.
\<close>

type_synonym feature_row = "(string \<times> pyval) list"

text \<open>
  A loaded scikit-learn pipeline, as far as app.py uses it: \<open>predict\<close>,
  \<open>predict_proba\<close> and \<open>named_steps['classifier'].classes_\<close>. The pipelines are
  external artifacts: each method is an arbitrary function of the row that returns or raises.
\<close>

record pipeline =
  predict :: "feature_row \<Rightarrow> py_error + pyval list"
  predict_proba :: "feature_row \<Rightarrow> py_error + real list list"
  classifier_classes :: "py_error + string list"

text \<open>What a call does besides returning: the external calls it makes and the lines it prints.\<close>

datatype effect =
    JoblibLoad string
  | Predict feature_row
  | PredictProba feature_row
  | PrintSalaryError py_error
  | PrintJobError py_error

text \<open>
  The process state around a call: what \<open>joblib.load\<close> gives for each path
  (a pipeline, or an exception such as a missing file), and the effects so far.
\<close>

record world =
  files :: "string \<Rightarrow> py_error + pipeline"
  trace :: "effect list"

definition emit :: "effect \<Rightarrow> world \<Rightarrow> world" where
  "emit e w = w\<lparr>trace := trace w @ [e]\<rparr>"

definition MODEL_DIR :: string where
  "MODEL_DIR = ''models''"

definition SALARY_MODEL_FILE :: string where
  "SALARY_MODEL_FILE = MODEL_DIR @ ''/'' @ ''salary_predictor_model.joblib''"

definition JOB_MODEL_FILE :: string where
  "JOB_MODEL_FILE = MODEL_DIR @ ''/'' @ ''job_classifier_model.joblib''"

definition joblib_load :: "string \<Rightarrow> world \<Rightarrow> (py_error + pipeline) \<times> world" where
  "joblib_load path w = (files w path, emit (JoblibLoad path) w)"

section \<open>The one-row DataFrame\<close>

text \<open>
  \<open>pd.DataFrame([{**user_input_data, 'age': projected_age, 'tenure_months': projected_tenure}])\<close>:
  a fresh dict, the caller's is not changed.
\<close>

definition twin_df :: "profile \<Rightarrow> pyval \<Rightarrow> pyval \<Rightarrow> profile" where
  "twin_df user_input_data proj_age proj_tenure =
     user_input_data(''age'' \<mapsto> proj_age, ''tenure_months'' \<mapsto> proj_tenure)"

definition feature_columns :: "string list" where
  "feature_columns =
     [''education'', ''location'', ''title'', ''industry'', ''age'', ''tenure_months'', ''remote_flag'']"

text \<open>
  \<open>df[[c1, ..., cn]]\<close>: the row in the order of the selection; \<open>KeyError\<close> with the
  columns that are not in the frame.
\<close>

definition select_columns :: "profile \<Rightarrow> string list \<Rightarrow> py_error + feature_row" where
  "select_columns df cols =
     (case filter (\<lambda>c. df c = None) cols of
        [] \<Rightarrow> Inr (List.map_filter (\<lambda>c. map_option (Pair c) (df c)) cols)
      | missing \<Rightarrow> Inl (KeyError missing))"

section \<open>Top-3 selection\<close>

text \<open>
  \<open>np.argsort\<close> is library code, and app.py calls it with the default sort kind, which
  is not stable: numpy promises the indices that sort the array ascending and nothing
  about the order of equal values. The function is therefore a parameter \<open>np_argsort\<close> of
  everything that uses it, and \<open>is_argsort\<close> is what numpy promises of its result.
\<close>

definition is_argsort :: "real list \<Rightarrow> nat list \<Rightarrow> bool" where
  "is_argsort xs is \<longleftrightarrow>
     distinct is \<and> set is = set [0..<length xs] \<and> sorted (map (\<lambda>i. xs ! i) is)"

text \<open>
  One function that keeps the promise, the stable sort of the indices by value (numpy's
  \<open>kind='stable'\<close>). It is used on the example inputs only.
\<close>

definition argsort_stable :: "real list \<Rightarrow> nat list" where
  "argsort_stable xs = map snd (sort_key fst (zip xs [0..<length xs]))"

text \<open>\<open>np.argsort(probas)[::-1][:3]\<close>\<close>

definition top_indices :: "(real list \<Rightarrow> nat list) \<Rightarrow> real list \<Rightarrow> nat list" where
  "top_indices np_argsort probas = take 3 (rev (np_argsort probas))"

text \<open>\<open>[classes[i] for i in top_indices]\<close>: an index out of range raises \<open>IndexError\<close>.\<close>

fun labels_at :: "string list \<Rightarrow> nat list \<Rightarrow> py_error + string list" where
  "labels_at classes [] = Inr []"
| "labels_at classes (i # is) =
     (case getindex classes i of
        Inl e \<Rightarrow> Inl e
      | Inr c \<Rightarrow> (case labels_at classes is of Inl e \<Rightarrow> Inl e | Inr cs \<Rightarrow> Inr (c # cs)))"

definition top_jobs ::
  "(real list \<Rightarrow> nat list) \<Rightarrow> string list \<Rightarrow> real list \<Rightarrow> py_error + string list" where
  "top_jobs np_argsort classes probas = labels_at classes (top_indices np_argsort probas)"

section \<open>The integrated prediction function\<close>

record projection_result =
  projected_age :: int
  health_increase_percent :: real
  predicted_salary :: pyval
  recommended_jobs :: "string list"
  time_projection_months :: int

text \<open>The time projection (the first three statements of \<open>predict_future_twin\<close>).\<close>

definition time_projection :: "profile \<Rightarrow> int \<Rightarrow> py_error + pyval \<times> pyval" where
  "time_projection user_input_data projection_months =
     (let age_increase_years = projection_months div 12 in
      case getitem user_input_data ''age'' of
        Inl e \<Rightarrow> Inl e
      | Inr age \<Rightarrow>
     (case py_add_int age age_increase_years of
        Inl e \<Rightarrow> Inl e
      | Inr proj_age \<Rightarrow>
     (case getitem user_input_data ''tenure_months'' of
        Inl e \<Rightarrow> Inl e
      | Inr tenure \<Rightarrow>
     (case py_add_int tenure projection_months of
        Inl e \<Rightarrow> Inl e
      | Inr proj_tenure \<Rightarrow> Inr (proj_age, proj_tenure)))))"

text \<open>
  The health prediction: \<open>health_percent_increase = (sleep_factor - 1.0) * 100\<close> in double
  arithmetic, from the sleep hours of the profile or the default 7.5.
\<close>

definition health_prediction :: "profile \<Rightarrow> py_error + real" where
  "health_prediction user_input_data =
     (case py_number (dict_get user_input_data ''avg_sleep_hours'' (PyFloat 7.5)) of
        Inl e \<Rightarrow> Inl e
      | Inr avg_sleep_hours \<Rightarrow>
          (let sleep_factor = predict_health_increase_double avg_sleep_hours
           in Inr (fl (fl (sleep_factor - 1.0) * 100))))"

text \<open>The body of the first \<open>try\<close>: load the pipeline, select the columns, predict.\<close>

definition salary_try :: "profile \<Rightarrow> world \<Rightarrow> (py_error + pyval) \<times> world" where
  "salary_try df w =
     (case joblib_load SALARY_MODEL_FILE w of
        (Inl e, w1) \<Rightarrow> (Inl e, w1)
      | (Inr salary_pipeline, w1) \<Rightarrow>
     (case select_columns df feature_columns of
        Inl e \<Rightarrow> (Inl e, w1)
      | Inr X_salary \<Rightarrow>
     (let w2 = emit (Predict X_salary) w1 in
      case predict salary_pipeline X_salary of
        Inl e \<Rightarrow> (Inl e, w2)
      | Inr ys \<Rightarrow> (getindex ys 0, w2))))"

text \<open>The first \<open>try\<close> with its handler: any exception is printed and becomes -1.0.\<close>

definition salary_prediction :: "profile \<Rightarrow> world \<Rightarrow> pyval \<times> world" where
  "salary_prediction df w =
     (case salary_try df w of
        (Inr predicted, w1) \<Rightarrow> (predicted, w1)
      | (Inl e, w1) \<Rightarrow> (PyFloat (- 1.0), emit (PrintSalaryError e) w1))"

text \<open>The body of the second \<open>try\<close>.\<close>

definition job_try ::
  "(real list \<Rightarrow> nat list) \<Rightarrow> profile \<Rightarrow> world \<Rightarrow> (py_error + string list) \<times> world" where
  "job_try np_argsort df w =
     (case joblib_load JOB_MODEL_FILE w of
        (Inl e, w1) \<Rightarrow> (Inl e, w1)
      | (Inr job_pipeline, w1) \<Rightarrow>
     (case select_columns df feature_columns of
        Inl e \<Rightarrow> (Inl e, w1)
      | Inr X_job \<Rightarrow>
     (let w2 = emit (PredictProba X_job) w1 in
      case predict_proba job_pipeline X_job of
        Inl e \<Rightarrow> (Inl e, w2)
      | Inr rows \<Rightarrow>
     (case getindex rows 0 of
        Inl e \<Rightarrow> (Inl e, w2)
      | Inr probas \<Rightarrow>
     (case classifier_classes job_pipeline of
        Inl e \<Rightarrow> (Inl e, w2)
      | Inr classes \<Rightarrow> (top_jobs np_argsort classes probas, w2))))))"

text \<open>The second \<open>try\<close> with its handler: any exception is printed and becomes ["N/A"].\<close>

definition job_classification ::
  "(real list \<Rightarrow> nat list) \<Rightarrow> profile \<Rightarrow> world \<Rightarrow> string list \<times> world" where
  "job_classification np_argsort df w =
     (case job_try np_argsort df w of
        (Inr jobs, w1) \<Rightarrow> (jobs, w1)
      | (Inl e, w1) \<Rightarrow> ([''N/A''], emit (PrintJobError e) w1))"

text \<open>
  The \<open>predicted_salary\<close> entry of the result:
  \<open>round(float(s), 2) if isinstance(s, (float, np.float64)) and s != -1.0 else "N/A"\<close>.
\<close>

fun salary_entry :: "pyval \<Rightarrow> pyval" where
  "salary_entry (PyFloat s) = (if s \<noteq> - 1.0 then PyFloat (py_round s 2) else PyStr ''N/A'')"
| "salary_entry _ = PyStr ''N/A''"

text \<open>
  \<open>predict_future_twin\<close>, with numpy's argsort as its first argument: an exception outside
  the two \<open>try\<close> blocks leaves the function (\<open>Inl\<close>); otherwise the result dict is
  returned.
\<close>

definition predict_future_twin ::
  "(real list \<Rightarrow> nat list) \<Rightarrow> profile \<Rightarrow> int \<Rightarrow> world \<Rightarrow>
     (py_error + projection_result) \<times> world" where
  "predict_future_twin np_argsort user_input_data projection_months w =
     (case time_projection user_input_data projection_months of
        Inl e \<Rightarrow> (Inl e, w)
      | Inr (proj_age, proj_tenure) \<Rightarrow>
     (case health_prediction user_input_data of
        Inl e \<Rightarrow> (Inl e, w)
      | Inr health_percent_increase \<Rightarrow>
     (let df = twin_df user_input_data proj_age proj_tenure in
      case salary_prediction df w of (salary, w1) \<Rightarrow>
     (case job_classification np_argsort df w1 of (jobs, w2) \<Rightarrow>
     (case py_int proj_age of
        Inl e \<Rightarrow> (Inl e, w2)
      | Inr age_int \<Rightarrow>
          (Inr \<lparr>projected_age = age_int,
                health_increase_percent = py_round health_percent_increase 1,
                predicted_salary = salary_entry salary,
                recommended_jobs = jobs,
                time_projection_months = projection_months\<rparr>, w2))))))"

section \<open>Example inputs\<close>

text \<open>Concrete profiles, pipelines and worlds on which the theorems are instantiated.\<close>

definition demo_profile :: profile where
  "demo_profile =
     [''age'' \<mapsto> PyInt 30, ''tenure_months'' \<mapsto> PyInt 10, ''education'' \<mapsto> PyStr ''Bachelors'',
      ''location'' \<mapsto> PyStr ''Kochi'', ''title'' \<mapsto> PyStr ''Developer'',
      ''industry'' \<mapsto> PyStr ''Software'', ''remote_flag'' \<mapsto> PyBool True]"

definition demo_profile_no_industry :: profile where
  "demo_profile_no_industry =
     [''age'' \<mapsto> PyInt 30, ''tenure_months'' \<mapsto> PyInt 10, ''education'' \<mapsto> PyStr ''Bachelors'',
      ''location'' \<mapsto> PyStr ''Kochi'', ''title'' \<mapsto> PyStr ''Developer'',
      ''remote_flag'' \<mapsto> PyBool True]"

definition demo_profile_sleep :: profile where
  "demo_profile_sleep =
     [''age'' \<mapsto> PyInt 30, ''tenure_months'' \<mapsto> PyInt 10, ''education'' \<mapsto> PyStr ''Bachelors'',
      ''location'' \<mapsto> PyStr ''Kochi'', ''title'' \<mapsto> PyStr ''Developer'',
      ''industry'' \<mapsto> PyStr ''Software'', ''remote_flag'' \<mapsto> PyBool True,
      ''avg_sleep_hours'' \<mapsto> PyFloat 6.75]"

definition demo_profile_no_industry_sleep :: profile where
  "demo_profile_no_industry_sleep =
     [''age'' \<mapsto> PyInt 30, ''tenure_months'' \<mapsto> PyInt 10, ''education'' \<mapsto> PyStr ''Bachelors'',
      ''location'' \<mapsto> PyStr ''Kochi'', ''title'' \<mapsto> PyStr ''Developer'',
      ''remote_flag'' \<mapsto> PyBool True, ''avg_sleep_hours'' \<mapsto> PyFloat 6.75]"

definition demo_pipeline :: pipeline where
  "demo_pipeline =
     \<lparr>predict = (\<lambda>X. Inr [PyFloat 1234.5625]),
      predict_proba = (\<lambda>X. Inr [[0.1, 0.4, 0.4, 0.1]]),
      classifier_classes = Inr [''A'', ''B'', ''C'', ''D'']\<rparr>"

definition demo_world :: world where
  "demo_world = \<lparr>files = (\<lambda>path. Inr demo_pipeline), trace = []\<rparr>"

definition demo_row :: feature_row where
  "demo_row =
     [(''education'', PyStr ''Bachelors''), (''location'', PyStr ''Kochi''),
      (''title'', PyStr ''Developer''), (''industry'', PyStr ''Software''),
      (''age'', PyInt 32), (''tenure_months'', PyInt 34), (''remote_flag'', PyBool True)]"



definition minus_one_pipeline :: pipeline where
  "minus_one_pipeline =
     \<lparr>predict = (\<lambda>X. Inr [PyFloat (- 1.0)]),
      predict_proba = (\<lambda>X. Inr [[0.1, 0.4, 0.4, 0.1]]),
      classifier_classes = Inr [''A'', ''B'', ''C'', ''D'']\<rparr>"

definition world_minus_one :: world where
  "world_minus_one = \<lparr>files = (\<lambda>path. Inr minus_one_pipeline), trace = []\<rparr>"


section \<open>Auxiliary facts\<close>

lemmas fl_eval =
  fl_def binary_exponent_def exponent_up.simps exponent_down.simps pow2_def round_half_even_def
  Let_def

lemma time_projection_ints:
  "p ''age'' = Some (PyInt a) \<Longrightarrow> p ''tenure_months'' = Some (PyInt t) \<Longrightarrow>
   time_projection p h = Inr (PyInt (a + h div 12), PyInt (t + h))"
  by (simp add: time_projection_def getitem_def)

lemma time_projection_missing:
  "p ''age'' = None \<or> p ''tenure_months'' = None \<Longrightarrow> \<exists>e. time_projection p h = Inl e"
  by (auto simp: time_projection_def getitem_def split: option.splits sum.splits)

lemma py_int_py_add_int: "py_add_int v n = Inr u \<Longrightarrow> \<exists>i. py_int u = Inr i"
  by (cases v) (auto split: sum.splits)

lemma time_projection_py_int:
  "time_projection p h = Inr (pa, pt) \<Longrightarrow> \<exists>i. py_int pa = Inr i"
  by (auto simp: time_projection_def split: sum.splits dest: py_int_py_add_int)

lemma files_emit [simp]: "files (emit e w) = files w"
  by (simp add: emit_def)

lemma trace_emit [simp]: "trace (emit e w) = trace w @ [e]"
  by (simp add: emit_def)

lemma files_salary_try [simp]: "files (snd (salary_try df w)) = files w"
  by (simp add: salary_try_def joblib_load_def Let_def split: sum.splits)

lemma files_job_try [simp]: "files (snd (job_try f df w)) = files w"
  by (simp add: job_try_def joblib_load_def Let_def split: sum.splits)

lemma fst_salary_try_files:
  "files w' = files w \<Longrightarrow> fst (salary_try df w') = fst (salary_try df w)"
  by (simp add: salary_try_def joblib_load_def Let_def split: sum.splits)

lemma fst_job_try_files:
  "files w' = files w \<Longrightarrow> fst (job_try f df w') = fst (job_try f df w)"
  by (simp add: job_try_def joblib_load_def Let_def split: sum.splits)

lemma files_salary_prediction [simp]: "files (snd (salary_prediction df w)) = files w"
  using files_salary_try [of df w]
  by (cases "salary_try df w") (auto simp: salary_prediction_def split: sum.splits)

lemma files_job_classification [simp]: "files (snd (job_classification f df w)) = files w"
  using files_job_try [of f df w]
  by (cases "job_try f df w") (auto simp: job_classification_def split: sum.splits)

lemma fst_salary_prediction:
  "fst (salary_prediction df w) = (case fst (salary_try df w) of Inr v \<Rightarrow> v | Inl e \<Rightarrow> PyFloat (- 1))"
  by (cases "salary_try df w") (auto simp: salary_prediction_def split: sum.splits)

lemma fst_job_classification:
  "fst (job_classification f df w) =
     (case fst (job_try f df w) of Inr js \<Rightarrow> js | Inl e \<Rightarrow> [''N/A''])"
  by (cases "job_try f df w") (auto simp: job_classification_def split: sum.splits)

lemma fst_predict_future_twin:
  assumes "time_projection p h = Inr (pa, pt)" and "health_prediction p = Inr hp"
    and "py_int pa = Inr i"
  shows "fst (predict_future_twin f p h w) =
     Inr \<lparr>projected_age = i,
          health_increase_percent = py_round hp 1,
          predicted_salary = salary_entry (fst (salary_prediction (twin_df p pa pt) w)),
          recommended_jobs = fst (job_classification f (twin_df p pa pt) w),
          time_projection_months = h\<rparr>"
proof -
  let ?df = "twin_df p pa pt"
  obtain s w1 where s: "salary_prediction ?df w = (s, w1)"
    by (cases "salary_prediction ?df w")
  obtain js w2 where j: "job_classification f ?df w1 = (js, w2)"
    by (cases "job_classification f ?df w1")
  have "files w1 = files w"
    using files_salary_prediction [of ?df w] s by simp
  then have "fst (job_classification f ?df w1) = fst (job_classification f ?df w)"
    using fst_job_try_files [of w1 w f ?df] by (simp add: fst_job_classification)
  then have js: "fst (job_classification f ?df w) = js"
    using j by simp
  have "predict_future_twin f p h w =
     (Inr \<lparr>projected_age = i, health_increase_percent = py_round hp 1,
           predicted_salary = salary_entry s, recommended_jobs = js,
           time_projection_months = h\<rparr>, w2)"
    using assms s j by (simp add: predict_future_twin_def Let_def)
  then show ?thesis
    using s js by simp
qed

lemma select_columns_missing:
  "c \<in> set cols \<Longrightarrow> df c = None \<Longrightarrow> \<exists>ms. select_columns df cols = Inl (KeyError ms)"
proof -
  assume "c \<in> set cols" and "df c = None"
  then have "c \<in> set (filter (\<lambda>c. df c = None) cols)" by simp
  then obtain m ms where "filter (\<lambda>c. df c = None) cols = m # ms"
    by (cases "filter (\<lambda>c. df c = None) cols") auto
  then show ?thesis by (simp add: select_columns_def)
qed

lemma salary_try_no_columns:
  "select_columns df feature_columns = Inl e \<Longrightarrow> \<exists>e'. fst (salary_try df w) = Inl e'"
  by (simp add: salary_try_def joblib_load_def split: sum.splits)

lemma job_try_no_columns:
  "select_columns df feature_columns = Inl e \<Longrightarrow> \<exists>e'. fst (job_try f df w) = Inl e'"
  by (simp add: job_try_def joblib_load_def split: sum.splits)

lemma health_prediction_number:
  "py_number (dict_get p ''avg_sleep_hours'' (PyFloat 7.5)) = Inr s \<Longrightarrow>
   health_prediction p = Inr (fl (fl (predict_health_increase_double s - 1.0) * 100))"
  by (simp add: health_prediction_def)

lemma health_default: "fl (fl (predict_health_increase_double 7.5 - 1.0) * 100)
    = 5629499534213125 / 562949953421312"
  by (simp add: predict_health_increase_double_def fl_eval)

lemma health_default_rounded:
  "py_round (fl (fl (predict_health_increase_double 7.5 - 1.0) * 100)) 1 = 10"
  unfolding health_default by (simp add: py_round_def fl_eval)

lemma health_675_rounded:
  "py_round (fl (fl (predict_health_increase_double 6.75 - 1.0) * 100)) 1 = fl 8.7"
  by (simp add: py_round_def predict_health_increase_double_def fl_eval)

lemma salary_demo_rounded: "py_round 1234.5625 2 = fl 1234.56"
  by (simp add: py_round_def fl_eval)

lemma floor_months: "\<lfloor>real_of_int h / 12\<rfloor> = h div 12"
  using floor_divide_of_int_eq [of h 12, where ?'a = real] by simp

lemma twin_missing_column:
  assumes age: "p ''age'' = Some (PyInt a)"
    and tenure: "p ''tenure_months'' = Some (PyInt t)"
    and sleep: "py_number (dict_get p ''avg_sleep_hours'' (PyFloat 7.5)) = Inr s"
    and c: "c \<in> {''education'', ''location'', ''title'', ''industry'', ''remote_flag''}"
    and missing: "p c = None"
  shows "fst (predict_future_twin f p h w) =
     Inr \<lparr>projected_age = a + h div 12,
          health_increase_percent =
            py_round (fl (fl (predict_health_increase_double s - 1.0) * 100)) 1,
          predicted_salary = PyStr ''N/A'',
          recommended_jobs = [''N/A''],
          time_projection_months = h\<rparr>"
proof -
  let ?df = "twin_df p (PyInt (a + h div 12)) (PyInt (t + h))"
  have "c \<in> set feature_columns" and "?df c = None"
    using c missing by (auto simp: feature_columns_def twin_df_def)
  then obtain ms where ms: "select_columns ?df feature_columns = Inl (KeyError ms)"
    using select_columns_missing by blast
  obtain e1 where "fst (salary_try ?df w) = Inl e1"
    using salary_try_no_columns [OF ms] by blast
  then have sal: "salary_entry (fst (salary_prediction ?df w)) = PyStr ''N/A''"
    by (simp add: fst_salary_prediction)
  obtain e2 where "fst (job_try f ?df w) = Inl e2"
    using job_try_no_columns [OF ms] by blast
  then have job: "fst (job_classification f ?df w) = [''N/A'']"
    by (simp add: fst_job_classification)
  have tp: "time_projection p h = Inr (PyInt (a + h div 12), PyInt (t + h))"
    by (rule time_projection_ints [OF age tenure])
  have pi: "py_int (PyInt (a + h div 12)) = Inr (a + h div 12)"
    by simp
  show ?thesis
    using fst_predict_future_twin [OF tp health_prediction_number [OF sleep] pi, of f w] sal job
    by simp
qed

lemma length_is_argsort: "is_argsort xs is \<Longrightarrow> length is = length xs"
  using distinct_card [of "is"] by (simp add: is_argsort_def)

lemma rev_is_argsort_sorted:
  "is_argsort xs is \<Longrightarrow> sorted_wrt (\<lambda>i j. xs ! j \<le> xs ! i) (rev is)"
  by (simp add: is_argsort_def sorted_wrt_rev sorted_map)

lemma labels_at_in_range:
  "\<forall>i\<in>set is. i < length classes \<Longrightarrow> labels_at classes is = Inr (map (\<lambda>i. classes ! i) is)"
  by (induction "is") (simp_all add: getindex_def)

lemma top_indices_facts:
  assumes "is_argsort probas (f probas)"
  shows "length (top_indices f probas) = min 3 (length probas)"
    and "distinct (top_indices f probas)"
    and "set (top_indices f probas) \<subseteq> {..<length probas}"
    and "sorted_wrt (\<lambda>i j. probas ! j \<le> probas ! i) (top_indices f probas)"
proof -
  show "length (top_indices f probas) = min 3 (length probas)"
    using length_is_argsort [of probas "f probas", OF assms] by (simp add: top_indices_def min.commute)
  show "distinct (top_indices f probas)"
    using assms by (simp add: top_indices_def is_argsort_def)
  have "set (f probas) = {..<length probas}"
    using assms by (simp add: is_argsort_def atLeast_upt)
  then show "set (top_indices f probas) \<subseteq> {..<length probas}"
    using set_take_subset [of 3 "rev (f probas)"] by (simp add: top_indices_def)
  show "sorted_wrt (\<lambda>i j. probas ! j \<le> probas ! i) (top_indices f probas)"
    using rev_is_argsort_sorted [of probas "f probas", OF assms] by (simp add: top_indices_def)
qed

lemma top_indices_dominate:
  assumes "is_argsort probas (f probas)"
    and "i \<in> set (top_indices f probas)" and "m < length probas"
    and "m \<notin> set (top_indices f probas)"
  shows "probas ! m \<le> probas ! i"
proof -
  let ?L = "rev (f probas)"
  have "sorted_wrt (\<lambda>i j. probas ! j \<le> probas ! i) (take 3 ?L @ drop 3 ?L)"
    using rev_is_argsort_sorted [of probas "f probas", OF assms(1)] by simp
  then have *: "\<forall>x\<in>set (take 3 ?L). \<forall>y\<in>set (drop 3 ?L). probas ! y \<le> probas ! x"
    unfolding sorted_wrt_append by blast
  have "m \<in> set ?L"
    using assms(1,3) by (simp add: is_argsort_def)
  then have "m \<in> set (take 3 ?L) \<union> set (drop 3 ?L)"
    unfolding set_append [symmetric] by simp
  then have "m \<in> set (drop 3 ?L)"
    using assms(4) by (simp add: top_indices_def)
  then show ?thesis
    using * assms(2) by (simp add: top_indices_def)
qed

lemma top_indices_all:
  assumes "is_argsort probas (f probas)" and "length probas \<le> 3"
  shows "set (top_indices f probas) = {..<length probas}"
  using assms length_is_argsort [of probas "f probas", OF assms(1)]
  by (simp add: top_indices_def is_argsort_def atLeast_upt)

lemma labels_all:
  assumes "is_argsort probas (f probas)"
    and "length classes = length probas" and "length probas \<le> 3"
  shows "set (map (\<lambda>i. classes ! i) (top_indices f probas)) = set classes"
proof -
  have "set (map (\<lambda>i. classes ! i) (top_indices f probas))
      = (\<lambda>i. classes ! i) ` {..<length classes}"
    using top_indices_all [where f = f and probas = probas, OF assms(1,3)] assms(2) by simp
  also have "\<dots> = set classes"
    by (auto simp: set_conv_nth)
  finally show ?thesis .
qed

lemma top_jobs_in_range:
  assumes "is_argsort probas (f probas)" and "length classes = length probas"
  shows "top_jobs f classes probas = Inr (map (\<lambda>i. classes ! i) (top_indices f probas))"
proof -
  have "\<forall>i\<in>set (top_indices f probas). i < length classes"
    using top_indices_facts(3) [where f = f and probas = probas, OF assms(1)] assms(2) by auto
  then show ?thesis
    by (simp add: top_jobs_def labels_at_in_range)
qed

lemma in_zip_upt: "(p, i) \<in> set (zip xs [0..<length xs]) \<Longrightarrow> p = xs ! i \<and> i < length xs"
  by (auto simp: set_zip)

lemma argsort_stable_is_argsort: "is_argsort xs (argsort_stable xs)"
proof -
  let ?zs = "zip xs [0..<length xs]"
  let ?ys = "sort_key fst ?zs"
  have a: "map snd ?zs = [0..<length xs]"
    by (rule map_snd_zip) simp
  have "set (argsort_stable xs) = snd ` set ?zs"
    by (simp add: argsort_stable_def)
  also have "\<dots> = set (map snd ?zs)"
    by (simp only: set_map)
  finally have s: "set (argsort_stable xs) = set [0..<length xs]"
    by (simp only: a)
  have "length (argsort_stable xs) = length xs"
    by (simp add: argsort_stable_def)
  then have "card (set (argsort_stable xs)) = length (argsort_stable xs)"
    by (simp add: s)
  then have d: "distinct (argsort_stable xs)"
    by (rule card_distinct)
  have "\<forall>z\<in>set ?ys. xs ! snd z = fst z"
    using in_zip_upt [of _ _ xs] by fastforce
  then have "map (\<lambda>z. xs ! snd z) ?ys = map fst ?ys"
    by (simp only: map_eq_conv)
  then have "map (\<lambda>i. xs ! i) (argsort_stable xs) = map fst ?ys"
    by (simp add: argsort_stable_def comp_def)
  then have "sorted (map (\<lambda>i. xs ! i) (argsort_stable xs))"
    by simp
  then show ?thesis
    using d s by (simp add: is_argsort_def)
qed

lemma model_files_differ: "SALARY_MODEL_FILE \<noteq> JOB_MODEL_FILE"
  by (simp add: SALARY_MODEL_FILE_def JOB_MODEL_FILE_def MODEL_DIR_def)

lemma fst_salary_try_row:
  "select_columns df feature_columns = Inr X \<Longrightarrow>
   fst (salary_try df w) =
     (case files w SALARY_MODEL_FILE of
        Inl e \<Rightarrow> Inl e
      | Inr sp \<Rightarrow> (case predict sp X of Inl e \<Rightarrow> Inl e | Inr ys \<Rightarrow> getindex ys 0))"
  by (simp add: salary_try_def joblib_load_def Let_def split: sum.splits)

lemma fst_job_try_row:
  "select_columns df feature_columns = Inr X \<Longrightarrow>
   fst (job_try f df w) =
     (case files w JOB_MODEL_FILE of
        Inl e \<Rightarrow> Inl e
      | Inr jp \<Rightarrow>
     (case predict_proba jp X of
        Inl e \<Rightarrow> Inl e
      | Inr rows \<Rightarrow>
     (case getindex rows 0 of
        Inl e \<Rightarrow> Inl e
      | Inr probas \<Rightarrow>
     (case classifier_classes jp of
        Inl e \<Rightarrow> Inl e
      | Inr classes \<Rightarrow> top_jobs f classes probas))))"
  by (simp add: job_try_def joblib_load_def Let_def split: sum.splits)

lemma trace_salary_try: "\<exists>es. snd (salary_try df w) = w\<lparr>trace := trace w @ es\<rparr>"
  by (auto simp: salary_try_def joblib_load_def emit_def Let_def split: sum.splits)

lemma trace_job_try: "\<exists>es. snd (job_try f df w) = w\<lparr>trace := trace w @ es\<rparr>"
  by (auto simp: job_try_def joblib_load_def emit_def Let_def split: sum.splits)

lemma trace_salary_prediction: "\<exists>es. snd (salary_prediction df w) = w\<lparr>trace := trace w @ es\<rparr>"
proof -
  obtain es where es: "snd (salary_try df w) = w\<lparr>trace := trace w @ es\<rparr>"
    using trace_salary_try by blast
  show ?thesis
  proof (cases "salary_try df w")
    case (Pair r w1)
    then show ?thesis
      using es by (cases r) (auto simp: salary_prediction_def emit_def)
  qed
qed

lemma trace_job_classification:
  "\<exists>es. snd (job_classification f df w) = w\<lparr>trace := trace w @ es\<rparr>"
proof -
  obtain es where es: "snd (job_try f df w) = w\<lparr>trace := trace w @ es\<rparr>"
    using trace_job_try by blast
  show ?thesis
  proof (cases "job_try f df w")
    case (Pair r w1)
    then show ?thesis
      using es by (cases r) (auto simp: job_classification_def emit_def)
  qed
qed

lemma trace_predict_future_twin:
  "\<exists>es. snd (predict_future_twin f p h w) = w\<lparr>trace := trace w @ es\<rparr>"
proof (cases "time_projection p h")
  case (Inl e)
  then have "snd (predict_future_twin f p h w) = w\<lparr>trace := trace w @ []\<rparr>"
    by (simp add: predict_future_twin_def)
  then show ?thesis by blast
next
  case (Inr ages)
  obtain pa pt where ages: "ages = (pa, pt)" by (cases ages)
  show ?thesis
  proof (cases "health_prediction p")
    case (Inl e)
    then have "snd (predict_future_twin f p h w) = w\<lparr>trace := trace w @ []\<rparr>"
      using Inr ages by (simp add: predict_future_twin_def)
    then show ?thesis by blast
  next
    case hp: (Inr hp)
    let ?df = "twin_df p pa pt"
    obtain s w1 where s: "salary_prediction ?df w = (s, w1)"
      by (cases "salary_prediction ?df w")
    obtain js w2 where j: "job_classification f ?df w1 = (js, w2)"
      by (cases "job_classification f ?df w1")
    obtain es1 where "w1 = w\<lparr>trace := trace w @ es1\<rparr>"
      using trace_salary_prediction [of ?df w] s by auto
    moreover obtain es2 where "w2 = w1\<lparr>trace := trace w1 @ es2\<rparr>"
      using trace_job_classification [of f ?df w1] j by auto
    ultimately have "w2 = w\<lparr>trace := trace w @ (es1 @ es2)\<rparr>"
      by simp
    moreover have "snd (predict_future_twin f p h w) = w2"
      using Inr ages hp s j by (simp add: predict_future_twin_def Let_def split: sum.splits)
    ultimately show ?thesis by blast
  qed
qed

lemma fst_predict_future_twin_files:
  assumes "files w' = files w"
  shows "fst (predict_future_twin f p h w') = fst (predict_future_twin f p h w)"
proof (cases "time_projection p h")
  case (Inl e)
  then show ?thesis by (simp add: predict_future_twin_def)
next
  case (Inr ages)
  obtain pa pt where ages: "ages = (pa, pt)" by (cases ages)
  show ?thesis
  proof (cases "health_prediction p")
    case (Inl e)
    then show ?thesis using Inr ages by (simp add: predict_future_twin_def)
  next
    case hp: (Inr hp)
    obtain i where i: "py_int pa = Inr i"
      using time_projection_py_int Inr ages by blast
    have tp: "time_projection p h = Inr (pa, pt)"
      using Inr ages by simp
    show ?thesis
      using fst_salary_try_files [OF assms, of "twin_df p pa pt"]
        fst_job_try_files [OF assms, of f "twin_df p pa pt"]
      by (simp add: fst_predict_future_twin [OF tp hp i] fst_salary_prediction
          fst_job_classification)
  qed
qed

lemma demo_df_row:
  "select_columns (twin_df demo_profile (PyInt 32) (PyInt 34)) feature_columns = Inr demo_row"
  by (simp add: select_columns_def twin_df_def demo_profile_def feature_columns_def demo_row_def
      List.map_filter_simps)

lemma twin_result:
  assumes age: "p ''age'' = Some (PyInt a)"
    and tenure: "p ''tenure_months'' = Some (PyInt t)"
    and sleep: "py_number (dict_get p ''avg_sleep_hours'' (PyFloat 7.5)) = Inr s"
    and df: "df = twin_df p (PyInt (a + h div 12)) (PyInt (t + h))"
  shows "fst (predict_future_twin f p h w) =
     Inr \<lparr>projected_age = a + h div 12,
          health_increase_percent =
            py_round (fl (fl (predict_health_increase_double s - 1.0) * 100)) 1,
          predicted_salary =
            salary_entry (case fst (salary_try df w) of Inr v \<Rightarrow> v | Inl e \<Rightarrow> PyFloat (- 1)),
          recommended_jobs =
            (case fst (job_try f df w) of Inr js \<Rightarrow> js | Inl e \<Rightarrow> [''N/A'']),
          time_projection_months = h\<rparr>"
proof -
  have tp: "time_projection p h = Inr (PyInt (a + h div 12), PyInt (t + h))"
    by (rule time_projection_ints [OF age tenure])
  have pi: "py_int (PyInt (a + h div 12)) = Inr (a + h div 12)"
    by simp
  show ?thesis
    using fst_predict_future_twin [OF tp health_prediction_number [OF sleep] pi, of f w]
    by (simp add: df fst_salary_prediction fst_job_classification)
qed

lemma predict_health_increase_double_band:
  "7.0 \<le> h \<Longrightarrow> h \<le> 8.5 \<Longrightarrow> predict_health_increase_double h = fl 1.10"
  by (simp add: predict_health_increase_double_def fl_eval)

lemma demo_sleep_default:
  "py_number (dict_get demo_profile ''avg_sleep_hours'' (PyFloat 7.5)) = Inr 7.5"
  by (simp add: demo_profile_def dict_get_def)

lemma top_jobs_demo:
  "top_jobs argsort_stable [''A'', ''B'', ''C'', ''D''] [0.1, 0.4, 0.4, 0.1]
     = Inr [''C'', ''B'', ''D'']"
  by (simp add: top_jobs_def top_indices_def argsort_stable_def getindex_def upt_rec)

lemma demo_sleep_675:
  "py_number (dict_get demo_profile_sleep ''avg_sleep_hours'' (PyFloat 7.5)) = Inr 6.75"
  by (simp add: demo_profile_sleep_def dict_get_def)

lemma demo_sleep_df_row:
  "select_columns (twin_df demo_profile_sleep (PyInt 32) (PyInt 34)) feature_columns
     = Inr demo_row"
  by (simp add: select_columns_def twin_df_def demo_profile_sleep_def feature_columns_def
      demo_row_def List.map_filter_simps)

section \<open>Double rounding is monotone\<close>

text \<open>
  Rounding to the nearest double preserves the order of the reals. With it, what holds of
  the heuristic in exact arithmetic (its value in the band, its monotonicity on each
  side, its lower bound 1.0) holds of the heuristic in double arithmetic as well.
\<close>

lemma round_half_even_bounds:
  "of_int (round_half_even x) \<le> x + 1 / 2" "x - 1 / 2 \<le> of_int (round_half_even x)"
  by (auto simp: round_half_even_def Let_def) linarith+

lemma round_half_even_mono: "x \<le> y \<Longrightarrow> round_half_even x \<le> round_half_even y"
proof -
  assume xy: "x \<le> y"
  have fm: "\<lfloor>x\<rfloor> \<le> \<lfloor>y\<rfloor>" using xy by (rule floor_mono)
  show ?thesis
  proof (cases "\<lfloor>x\<rfloor> = \<lfloor>y\<rfloor>")
    case True
    then have "x - of_int \<lfloor>x\<rfloor> \<le> y - of_int \<lfloor>y\<rfloor>" using xy by simp
    then show ?thesis
      using True by (auto simp: round_half_even_def Let_def)
  next
    case False
    then have "\<lfloor>x\<rfloor> + 1 \<le> \<lfloor>y\<rfloor>" using fm by simp
    moreover have "round_half_even x \<le> \<lfloor>x\<rfloor> + 1"
      by (simp add: round_half_even_def Let_def)
    moreover have "\<lfloor>y\<rfloor> \<le> round_half_even y"
      by (simp add: round_half_even_def Let_def)
    ultimately show ?thesis by linarith
  qed
qed

lemma round_half_even_of_int [simp]: "round_half_even (of_int k) = k"
  by (simp add: round_half_even_def)

lemma round_half_even_minus: "round_half_even (- x) = - round_half_even x"
proof (cases "x = of_int \<lfloor>x\<rfloor>")
  case True
  then obtain k where "x = of_int k" by blast
  then show ?thesis
    using round_half_even_of_int [of "- k"] by simp
next
  case False
  then have c: "\<lceil>x\<rceil> = \<lfloor>x\<rfloor> + 1"
    by (metis ceiling_altdef of_int_floor)
  have f: "\<lfloor>- x\<rfloor> = - \<lfloor>x\<rfloor> - 1"
    using c by (simp add: ceiling_def)
  have lt: "of_int \<lfloor>x\<rfloor> < x" using False
    by (metis less_eq_real_def of_int_floor_le)
  show ?thesis
    unfolding round_half_even_def Let_def f using lt
    by (auto simp: algebra_simps)
qed

lemma pow2_power_int: "pow2 k = 2 powi k"
  by (simp add: pow2_def power_int_def field_simps)

lemma pow2_pos [simp]: "0 < pow2 k"
  by (simp add: pow2_power_int)

lemma pow2_nonneg [simp]: "0 \<le> pow2 k"
  using pow2_pos [of k] by (rule less_imp_le)

lemma pow2_add: "pow2 (k + l) = pow2 k * pow2 l"
  by (simp add: pow2_power_int power_int_add)

lemma pow2_mono: "k \<le> l \<Longrightarrow> pow2 k \<le> pow2 l"
  by (simp add: pow2_power_int power_int_increasing)

lemma pow2_0 [simp]: "pow2 0 = 1"
  by (simp add: pow2_def)

lemma pow2_1 [simp]: "pow2 1 = 2"
  by (simp add: pow2_def)

lemma pow2_2 [simp]: "pow2 2 = 4"
  by (simp add: pow2_def)

lemma pow2_succ: "pow2 (k + 1) = 2 * pow2 k"
  using pow2_add [of k 1] by simp

lemma pow2_pred: "pow2 (k - 1) = pow2 k / 2"
  using pow2_succ [of "k - 1"] by simp

lemma exponent_up_range: "0 \<le> exponent_up n a \<and> exponent_up n a \<le> int n"
proof (induction n a rule: exponent_up.induct)
  case (1 fuel a)
  show ?case
  proof (cases "fuel = 0 \<or> a < 2")
    case True
    then show ?thesis by (simp add: exponent_up.simps [of fuel a])
  next
    case False
    then show ?thesis
      using 1 by (auto simp: exponent_up.simps [of fuel a])
  qed
qed

lemma exponent_up_lower: "1 \<le> a \<Longrightarrow> pow2 (exponent_up n a) \<le> a"
proof (induction n a rule: exponent_up.induct)
  case (1 fuel a)
  show ?case
  proof (cases "fuel = 0 \<or> a < 2")
    case True
    then show ?thesis using 1(2) by (simp add: exponent_up.simps [of fuel a])
  next
    case False
    then have "pow2 (exponent_up (fuel - 1) (a / 2)) \<le> a / 2"
      using 1 by simp
    then show ?thesis
      using False by (simp add: exponent_up.simps [of fuel a] pow2_add)
  qed
qed

lemma exponent_up_upper:
  "a < pow2 (exponent_up n a + 1) \<or> exponent_up n a = int n"
proof (induction n a rule: exponent_up.induct)
  case (1 fuel a)
  show ?case
  proof (cases "fuel = 0 \<or> a < 2")
    case True
    then show ?thesis by (auto simp: exponent_up.simps [of fuel a])
  next
    case False
    then have "a / 2 < pow2 (exponent_up (fuel - 1) (a / 2) + 1)
        \<or> exponent_up (fuel - 1) (a / 2) = int (fuel - 1)"
      using 1 by simp
    then show ?thesis
      using False by (auto simp: exponent_up.simps [of fuel a] pow2_add)
  qed
qed

lemma exponent_up_mono: "a \<le> b \<Longrightarrow> exponent_up n a \<le> exponent_up n b"
proof (induction n a arbitrary: b rule: exponent_up.induct)
  case (1 fuel a)
  show ?case
  proof (cases "fuel = 0 \<or> a < 2")
    case True
    then show ?thesis
      using exponent_up_range [of fuel b] by (simp add: exponent_up.simps [of fuel a])
  next
    case False
    then have "exponent_up (fuel - 1) (a / 2) \<le> exponent_up (fuel - 1) (b / 2)"
      using 1 by simp
    then show ?thesis
      using False 1(2) by (simp add: exponent_up.simps [of fuel a] exponent_up.simps [of fuel b])
  qed
qed

lemma exponent_down_range: "- int n \<le> exponent_down n a \<and> exponent_down n a \<le> 0"
proof (induction n a rule: exponent_down.induct)
  case (1 fuel a)
  show ?case
  proof (cases "fuel = 0 \<or> 1 \<le> a")
    case True
    then show ?thesis by (simp add: exponent_down.simps [of fuel a])
  next
    case False
    then show ?thesis
      using 1 by (auto simp: exponent_down.simps [of fuel a])
  qed
qed

lemma exponent_down_upper: "a < 2 \<Longrightarrow> a < pow2 (exponent_down n a + 1)"
proof (induction n a rule: exponent_down.induct)
  case (1 fuel a)
  show ?case
  proof (cases "fuel = 0 \<or> 1 \<le> a")
    case True
    then show ?thesis using 1(2) by (simp add: exponent_down.simps [of fuel a])
  next
    case False
    then have "a * 2 < pow2 (exponent_down (fuel - 1) (a * 2) + 1)"
      using 1 by simp
    then show ?thesis
      using False by (simp add: exponent_down.simps [of fuel a] pow2_succ)
  qed
qed

lemma exponent_down_lower:
  "0 < a \<Longrightarrow> pow2 (exponent_down n a) \<le> a \<or> exponent_down n a = - int n"
proof (induction n a rule: exponent_down.induct)
  case (1 fuel a)
  show ?case
  proof (cases "fuel = 0 \<or> 1 \<le> a")
    case True
    then show ?thesis by (auto simp: exponent_down.simps [of fuel a])
  next
    case False
    then have "pow2 (exponent_down (fuel - 1) (a * 2)) \<le> a * 2
        \<or> exponent_down (fuel - 1) (a * 2) = - int (fuel - 1)"
      using 1 by simp
    then show ?thesis
      using False by (auto simp: exponent_down.simps [of fuel a] pow2_pred)
  qed
qed

lemma exponent_down_mono: "a \<le> b \<Longrightarrow> exponent_down n a \<le> exponent_down n b"
proof (induction n a arbitrary: b rule: exponent_down.induct)
  case (1 fuel a)
  show ?case
  proof (cases "fuel = 0 \<or> 1 \<le> a")
    case True
    then show ?thesis
      using 1(2) by (auto simp: exponent_down.simps [of fuel a] exponent_down.simps [of fuel b])
  next
    case False
    then have "exponent_down (fuel - 1) (a * 2) \<le> exponent_down (fuel - 1) (b * 2)"
      using 1 by simp
    then show ?thesis
      using False exponent_down_range [of "fuel - 1" "a * 2"]
      by (simp add: exponent_down.simps [of fuel a] exponent_down.simps [of fuel b])
  qed
qed

lemma binary_exponent_range: "- 1022 \<le> binary_exponent x \<and> binary_exponent x \<le> 1023"
  using exponent_up_range [of 1023 "\<bar>x\<bar>"] exponent_down_range [of 1022 "\<bar>x\<bar>"]
  by (simp add: binary_exponent_def)

lemma binary_exponent_mono:
  assumes "0 < x" and "x \<le> y"
  shows "binary_exponent x \<le> binary_exponent y"
proof (cases "1 \<le> x")
  case True
  then show ?thesis
    using assms exponent_up_mono [of x y 1023] by (simp add: binary_exponent_def)
next
  case False
  show ?thesis
  proof (cases "1 \<le> y")
    case True
    then show ?thesis
      using False assms exponent_down_range [of 1022 x] exponent_up_range [of 1023 y]
      by (simp add: binary_exponent_def)
  next
    case y: False
    then show ?thesis
      using False assms exponent_down_mono [of x y 1022] by (simp add: binary_exponent_def)
  qed
qed

lemma binary_exponent_upper:
  assumes "0 < x"
  shows "x < pow2 (binary_exponent x + 1) \<or> binary_exponent x = 1023"
proof (cases "1 \<le> x")
  case True
  then show ?thesis
    using assms exponent_up_upper [of x 1023] by (simp add: binary_exponent_def)
next
  case False
  then show ?thesis
    using assms exponent_down_upper [of x 1022] by (simp add: binary_exponent_def)
qed

lemma binary_exponent_lower:
  assumes "0 < x"
  shows "pow2 (binary_exponent x) \<le> x \<or> binary_exponent x = - 1022"
proof (cases "1 \<le> x")
  case True
  then show ?thesis
    using assms exponent_up_lower [of x 1023] by (simp add: binary_exponent_def)
next
  case False
  then show ?thesis
    using assms exponent_down_lower [of x 1022] by (simp add: binary_exponent_def)
qed

lemma fl_pos:
  "0 < x \<Longrightarrow> fl x = of_int (round_half_even (x / pow2 (binary_exponent x - 52)))
     * pow2 (binary_exponent x - 52)"
  by (simp add: fl_def Let_def)

lemma pow2_52: "pow2 52 = of_int (2 ^ 52)"
  by (simp add: pow2_def)

lemma pow2_53: "pow2 53 = of_int (2 ^ 53)"
  by (simp add: pow2_def)

lemma fl_le_next:
  assumes "0 < x" and "x < pow2 (binary_exponent x + 1)"
  shows "fl x \<le> pow2 (binary_exponent x + 1)"
proof -
  let ?e = "binary_exponent x"
  let ?u = "pow2 (?e - 52)"
  have split: "pow2 (?e + 1) = pow2 53 * ?u"
    using pow2_add [of 53 "?e - 52"] by (simp add: algebra_simps)
  have "x / ?u \<le> pow2 53"
    using assms(2) by (simp add: split pos_divide_le_eq)
  then have "round_half_even (x / ?u) \<le> round_half_even (of_int (2 ^ 53))"
    unfolding pow2_53 by (rule round_half_even_mono)
  then have "round_half_even (x / ?u) \<le> 2 ^ 53"
    by (simp only: round_half_even_of_int)
  then have "real_of_int (round_half_even (x / ?u)) \<le> pow2 53"
    unfolding pow2_53 by (simp only: of_int_le_iff)
  then have "real_of_int (round_half_even (x / ?u)) * ?u \<le> pow2 53 * ?u"
    by (rule mult_right_mono [OF _ pow2_nonneg])
  then show ?thesis
    using assms(1) by (simp only: fl_pos split)
qed

lemma fl_ge_prev:
  assumes "0 < x" and "pow2 (binary_exponent x) \<le> x"
  shows "pow2 (binary_exponent x) \<le> fl x"
proof -
  let ?e = "binary_exponent x"
  let ?u = "pow2 (?e - 52)"
  have split: "pow2 ?e = pow2 52 * ?u"
    using pow2_add [of 52 "?e - 52"] by (simp add: algebra_simps)
  have "pow2 52 \<le> x / ?u"
    using assms(2) by (simp add: split pos_le_divide_eq)
  then have "round_half_even (of_int (2 ^ 52)) \<le> round_half_even (x / ?u)"
    unfolding pow2_52 by (rule round_half_even_mono)
  then have "2 ^ 52 \<le> round_half_even (x / ?u)"
    by (simp only: round_half_even_of_int)
  then have "pow2 52 \<le> real_of_int (round_half_even (x / ?u))"
    unfolding pow2_52 by (simp only: of_int_le_iff)
  then have "pow2 52 * ?u \<le> real_of_int (round_half_even (x / ?u)) * ?u"
    by (rule mult_right_mono [OF _ pow2_nonneg])
  then show ?thesis
    using assms(1) by (simp only: fl_pos split)
qed

lemma fl_mono_pos:
  assumes "0 < x" and "x \<le> y"
  shows "fl x \<le> fl y"
proof -
  have y: "0 < y" using assms by simp
  let ?ex = "binary_exponent x" and ?ey = "binary_exponent y"
  have le: "?ex \<le> ?ey" by (rule binary_exponent_mono [OF assms])
  show ?thesis
  proof (cases "?ex = ?ey")
    case True
    let ?u = "pow2 (?ey - 52)"
    have "x / ?u \<le> y / ?u"
      using assms(2) by (rule divide_right_mono [OF _ pow2_nonneg])
    then have "round_half_even (x / ?u) \<le> round_half_even (y / ?u)"
      by (rule round_half_even_mono)
    then have "real_of_int (round_half_even (x / ?u)) \<le> real_of_int (round_half_even (y / ?u))"
      by (simp only: of_int_le_iff)
    then have "real_of_int (round_half_even (x / ?u)) * ?u
        \<le> real_of_int (round_half_even (y / ?u)) * ?u"
      by (rule mult_right_mono [OF _ pow2_nonneg])
    then show ?thesis
      using assms(1) y True by (simp only: fl_pos)
  next
    case False
    then have lt: "?ex + 1 \<le> ?ey" using le by simp
    then have "?ex \<noteq> 1023" and "?ey \<noteq> - 1022"
      using binary_exponent_range [of x] binary_exponent_range [of y] by simp_all
    then have "x < pow2 (?ex + 1)" and "pow2 ?ey \<le> y"
      using binary_exponent_upper [OF assms(1)] binary_exponent_lower [OF y] by simp_all
    then have "fl x \<le> pow2 (?ex + 1)" and "pow2 ?ey \<le> fl y"
      using fl_le_next [OF assms(1)] fl_ge_prev [OF y] by simp_all
    moreover have "pow2 (?ex + 1) \<le> pow2 ?ey"
      using lt by (rule pow2_mono)
    ultimately show ?thesis by linarith
  qed
qed

lemma fl_nonneg: "0 \<le> x \<Longrightarrow> 0 \<le> fl x"
proof -
  assume "0 \<le> x"
  then have "0 \<le> x / pow2 (binary_exponent x - 52)"
    by (intro divide_nonneg_pos pow2_pos)
  then have "round_half_even 0 \<le> round_half_even (x / pow2 (binary_exponent x - 52))"
    by (rule round_half_even_mono)
  then have "0 \<le> round_half_even (x / pow2 (binary_exponent x - 52))"
    using round_half_even_of_int [of 0] by simp
  then have "0 \<le> real_of_int (round_half_even (x / pow2 (binary_exponent x - 52)))
      * pow2 (binary_exponent x - 52)"
    by (intro mult_nonneg_nonneg pow2_nonneg) simp
  then show ?thesis
    by (simp add: fl_def Let_def)
qed

lemma fl_minus: "fl (- x) = - fl x"
  by (simp add: fl_def Let_def binary_exponent_def round_half_even_minus)

lemma fl_mono: "x \<le> y \<Longrightarrow> fl x \<le> fl y"
proof -
  assume xy: "x \<le> y"
  consider "0 < x" | "x \<le> 0" "0 \<le> y" | "y < 0" by linarith
  then show ?thesis
  proof cases
    case 1
    then show ?thesis using xy by (rule fl_mono_pos)
  next
    case 2
    then have "0 \<le> fl y" and "0 \<le> fl (- x)"
      by (simp_all add: fl_nonneg)
    then show ?thesis by (simp add: fl_minus)
  next
    case 3
    then have "fl (- y) \<le> fl (- x)"
      using xy by (intro fl_mono_pos) simp_all
    then show ?thesis by (simp add: fl_minus)
  qed
qed

lemma fl_1 [simp]: "fl 1 = 1"
  by (simp add: fl_eval)

lemma fl_0 [simp]: "fl 0 = 0"
  by (simp add: fl_def)

lemma health_double_below:
  "h < 7.0 \<Longrightarrow> predict_health_increase_double h
     = fl (1.0 + fl (max 0 (fl (10.0 - fl (fl (7.0 - h) * 5))) / 100.0))"
  by (simp add: predict_health_increase_double_def Let_def)

lemma health_double_above:
  "8.5 < h \<Longrightarrow> predict_health_increase_double h
     = fl (1.0 + fl (max 0 (fl (10.0 - fl (fl (h - 8.5) * 2))) / 100.0))"
  by (simp add: predict_health_increase_double_def Let_def)

lemma health_double_tail_mono:
  assumes "a \<le> b"
  shows "fl (1.0 + fl (max 0 a / 100.0)) \<le> fl (1.0 + fl (max 0 b / 100.0))"
proof -
  have "max 0 a / 100.0 \<le> max 0 b / 100.0"
    using assms by (auto simp: max_def)
  then have "fl (max 0 a / 100.0) \<le> fl (max 0 b / 100.0)"
    by (rule fl_mono)
  then have "1.0 + fl (max 0 a / 100.0) \<le> 1.0 + fl (max 0 b / 100.0)"
    by simp
  then show ?thesis by (rule fl_mono)
qed

lemma predict_health_increase_double_monotone:
  "(x \<le> y \<and> y < 7.0 \<longrightarrow>
      predict_health_increase_double x \<le> predict_health_increase_double y) \<and>
   (8.5 < x \<and> x \<le> y \<longrightarrow>
      predict_health_increase_double y \<le> predict_health_increase_double x) \<and>
   1.0 \<le> predict_health_increase_double x"
proof (intro conjI impI)
  assume "x \<le> y \<and> y < 7.0"
  then have xy: "x \<le> y" and y: "y < 7.0" and x: "x < 7.0" by simp_all
  have "fl (7.0 - y) \<le> fl (7.0 - x)"
    using xy by (intro fl_mono) simp
  then have "fl (fl (7.0 - y) * 5) \<le> fl (fl (7.0 - x) * 5)"
    by (intro fl_mono) simp
  then have "fl (10.0 - fl (fl (7.0 - x) * 5)) \<le> fl (10.0 - fl (fl (7.0 - y) * 5))"
    by (intro fl_mono) simp
  then show "predict_health_increase_double x \<le> predict_health_increase_double y"
    unfolding health_double_below [OF x] health_double_below [OF y]
    by (rule health_double_tail_mono)
next
  assume "8.5 < x \<and> x \<le> y"
  then have xy: "x \<le> y" and x: "8.5 < x" and y: "8.5 < y" by simp_all
  have "fl (x - 8.5) \<le> fl (y - 8.5)"
    using xy by (intro fl_mono) simp
  then have "fl (fl (x - 8.5) * 2) \<le> fl (fl (y - 8.5) * 2)"
    by (intro fl_mono) simp
  then have "fl (10.0 - fl (fl (y - 8.5) * 2)) \<le> fl (10.0 - fl (fl (x - 8.5) * 2))"
    by (intro fl_mono) simp
  then show "predict_health_increase_double y \<le> predict_health_increase_double x"
    unfolding health_double_above [OF x] health_double_above [OF y]
    by (rule health_double_tail_mono)
next
  have "0 \<le> fl (c / 100.0)" if "0 \<le> c" for c :: real
    using that by (intro fl_nonneg) simp
  then have "fl 1 \<le> fl (1.0 + fl (c / 100.0))" if "0 \<le> c" for c :: real
    using that by (intro fl_mono) simp
  then have *: "1.0 \<le> fl (1.0 + fl (c / 100.0))" if "0 \<le> c" for c :: real
    using that by simp
  show "1.0 \<le> predict_health_increase_double x"
    unfolding predict_health_increase_double_def Let_def
    by (rule *) simp
qed

section \<open>Properties of the health heuristic\<close>





section \<open>Properties of the time projection\<close>

text \<open>
  C6. For every integer age, tenure and horizon, the projected age is the age plus
  the floor of horizon / 12 and the projected tenure is the tenure plus the horizon;
  (30, 0) projected by 6 months is (30, 6) and (30, 10) projected by 24 months is (32, 34).
\<close>

theorem time_projection_policy:
  "time_projection (p(''age'' \<mapsto> PyInt age, ''tenure_months'' \<mapsto> PyInt tenureMonths)) horizonMonths
     = Inr (PyInt (age + \<lfloor>real_of_int horizonMonths / 12\<rfloor>), PyInt (tenureMonths + horizonMonths)) \<and>
   time_projection [''age'' \<mapsto> PyInt 30, ''tenure_months'' \<mapsto> PyInt 0] 6 = Inr (PyInt 30, PyInt 6) \<and>
   time_projection [''age'' \<mapsto> PyInt 30, ''tenure_months'' \<mapsto> PyInt 10] 24 = Inr (PyInt 32, PyInt 34)"
  by (simp add: floor_months time_projection_def getitem_def)

section \<open>Missing profile keys\<close>

text \<open>
  C10. A profile without the key \<open>age\<close> or without the key \<open>tenure_months\<close> makes
  \<open>predict_future_twin\<close> raise with the world unchanged: no pipeline has been loaded or
  invoked and nothing printed, and no result is produced. A profile that lacks the
  categorical key \<open>industry\<close> instead (age and tenure integers, no sleep entry) does get
  a result.
\<close>

theorem missing_age_or_tenure_raises:
  "(p ''age'' = None \<or> p ''tenure_months'' = None \<longrightarrow>
      (\<exists>e. predict_future_twin np_argsort p h w = (Inl e, w))) \<and>
   (p ''age'' = Some (PyInt a) \<and> p ''tenure_months'' = Some (PyInt t) \<and>
    p ''avg_sleep_hours'' = None \<and> p ''industry'' = None \<longrightarrow>
      (\<exists>r. fst (predict_future_twin np_argsort p h w) = Inr r))"
proof (intro conjI impI)
  assume "p ''age'' = None \<or> p ''tenure_months'' = None"
  then obtain e where "time_projection p h = Inl e"
    using time_projection_missing by blast
  then show "\<exists>e. predict_future_twin np_argsort p h w = (Inl e, w)"
    by (simp add: predict_future_twin_def)
next
  assume a: "p ''age'' = Some (PyInt a) \<and> p ''tenure_months'' = Some (PyInt t) \<and>
    p ''avg_sleep_hours'' = None \<and> p ''industry'' = None"
  then have "py_number (dict_get p ''avg_sleep_hours'' (PyFloat 7.5)) = Inr 7.5"
    by (simp add: dict_get_def)
  then show "\<exists>r. fst (predict_future_twin np_argsort p h w) = Inr r"
    using twin_missing_column [of p a t "7.5" "''industry''" np_argsort h w] a by simp
qed

theorem missing_age_or_tenure_raises_witness:
  "((demo_profile(''age'' := None)) ''age'' = None \<or>
      (demo_profile(''age'' := None)) ''tenure_months'' = None) \<and>
   (\<exists>e. predict_future_twin argsort_stable (demo_profile(''age'' := None)) 24 demo_world
      = (Inl e, demo_world)) \<and>
   (demo_profile_no_industry ''age'' = Some (PyInt 30) \<and>
    demo_profile_no_industry ''tenure_months'' = Some (PyInt 10) \<and>
    demo_profile_no_industry ''avg_sleep_hours'' = None \<and>
    demo_profile_no_industry ''industry'' = None) \<and>
   (\<exists>r. fst (predict_future_twin argsort_stable demo_profile_no_industry 24 demo_world) = Inr r)"
  using missing_age_or_tenure_raises
      [of "demo_profile(''age'' := None)" argsort_stable 24 demo_world]
    missing_age_or_tenure_raises
      [of demo_profile_no_industry argsort_stable 24 demo_world 30 10]
  by (simp add: demo_profile_no_industry_def)

text \<open>
  C1, as stated, fails: for the example profile without \<open>industry\<close> the call does not
  raise but returns a result that holds the two sentinels.
\<close>

theorem missing_industry_counterexample:
  "demo_profile_no_industry ''industry'' = None \<and>
   fst (predict_future_twin argsort_stable demo_profile_no_industry 24 demo_world) =
     Inr \<lparr>projected_age = 32, health_increase_percent = 10, predicted_salary = PyStr ''N/A'',
          recommended_jobs = [''N/A''], time_projection_months = 24\<rparr>"
proof -
  have 1: "demo_profile_no_industry ''age'' = Some (PyInt 30)"
    and 2: "demo_profile_no_industry ''tenure_months'' = Some (PyInt 10)"
    and 3: "py_number (dict_get demo_profile_no_industry ''avg_sleep_hours'' (PyFloat 7.5)) = Inr 7.5"
    and 4: "''industry'' \<in> {''education'', ''location'', ''title'', ''industry'', ''remote_flag''}"
    and 5: "demo_profile_no_industry ''industry'' = None"
    by (simp_all add: demo_profile_no_industry_def dict_get_def)
  show ?thesis
    using 5 twin_missing_column [OF 1 2 3 4 5, of argsort_stable 24 demo_world,
        unfolded health_default_rounded]
    by simp
qed

text \<open>
  C1, amended. For every profile with an integer age and tenure, and sleep hours that are
  absent or a number within the double range, in which one of \<open>education\<close>,
  \<open>location\<close>, \<open>title\<close>, \<open>industry\<close>, \<open>remote_flag\<close> is absent, the column
  selection raises inside both \<open>try\<close> blocks, and \<open>predict_future_twin\<close> returns a
  result with the projected age, the health increase (computed in doubles and rounded to
  one decimal) and the horizon, the salary "N/A" and the jobs ["N/A"], whatever the
  predictor artifacts and numpy's argsort are.
\<close>

theorem missing_categorical_gives_sentinels:
  assumes "p ''age'' = Some (PyInt a)"
    and "p ''tenure_months'' = Some (PyInt t)"
    and "py_number (dict_get p ''avg_sleep_hours'' (PyFloat 7.5)) = Inr s"
    and "c \<in> {''education'', ''location'', ''title'', ''industry'', ''remote_flag''}"
    and "p c = None"
  shows "fst (predict_future_twin np_argsort p h w) =
     Inr \<lparr>projected_age = a + h div 12,
          health_increase_percent =
            py_round (fl (fl (predict_health_increase_double s - 1.0) * 100)) 1,
          predicted_salary = PyStr ''N/A'',
          recommended_jobs = [''N/A''],
          time_projection_months = h\<rparr>"
  using assms by (rule twin_missing_column)

theorem missing_categorical_gives_sentinels_witness:
  "demo_profile_no_industry_sleep ''age'' = Some (PyInt 30) \<and>
   demo_profile_no_industry_sleep ''tenure_months'' = Some (PyInt 10) \<and>
   py_number (dict_get demo_profile_no_industry_sleep ''avg_sleep_hours'' (PyFloat 7.5))
     = Inr 6.75 \<and>
   ''industry'' \<in> {''education'', ''location'', ''title'', ''industry'', ''remote_flag''} \<and>
   demo_profile_no_industry_sleep ''industry'' = None \<and>
   fst (predict_future_twin argsort_stable demo_profile_no_industry_sleep 6 demo_world) =
     Inr \<lparr>projected_age = 30, health_increase_percent = fl 8.7,
          predicted_salary = PyStr ''N/A'',
          recommended_jobs = [''N/A''], time_projection_months = 6\<rparr>"
proof -
  have 1: "demo_profile_no_industry_sleep ''age'' = Some (PyInt 30)"
    and 2: "demo_profile_no_industry_sleep ''tenure_months'' = Some (PyInt 10)"
    and 3: "py_number (dict_get demo_profile_no_industry_sleep ''avg_sleep_hours'' (PyFloat 7.5))
      = Inr 6.75"
    and 4: "''industry'' \<in> {''education'', ''location'', ''title'', ''industry'', ''remote_flag''}"
    and 5: "demo_profile_no_industry_sleep ''industry'' = None"
    by (simp_all add: demo_profile_no_industry_sleep_def dict_get_def)
  have "fst (predict_future_twin argsort_stable demo_profile_no_industry_sleep 6 demo_world) =
     Inr \<lparr>projected_age = 30, health_increase_percent = fl 8.7,
          predicted_salary = PyStr ''N/A'',
          recommended_jobs = [''N/A''], time_projection_months = 6\<rparr>"
    using missing_categorical_gives_sentinels [OF 1 2 3 4 5, of argsort_stable 6 demo_world,
        unfolded health_675_rounded]
    by simp
  then show ?thesis
    using 1 2 3 4 5 by blast
qed

section \<open>Properties of the top-3 selection\<close>

text \<open>
  C3, as stated, fails: on the labels A, B, C, D with probabilities 0.1, 0.4, 0.4, 0.1,
  for which the argsort gives the indices 0, 3, 1, 2, the selection is C, B, D and not
  B, C, A: the ascending order is reversed, so the two labels of probability 0.4 come out
  with the later index first.
\<close>

theorem top_jobs_tie_counterexample:
  "argsort_stable [0.1, 0.4, 0.4, 0.1] = [0, 3, 1, 2] \<and>
   top_jobs argsort_stable [''A'', ''B'', ''C'', ''D''] [0.1, 0.4, 0.4, 0.1]
     = Inr [''C'', ''B'', ''D''] \<and>
   top_jobs argsort_stable [''A'', ''B'', ''C'', ''D''] [0.1, 0.4, 0.4, 0.1]
     \<noteq> Inr [''B'', ''C'', ''A'']"
  by (simp add: top_jobs_def top_indices_def argsort_stable_def getindex_def upt_rec)

text \<open>
  C3, amended. Whatever order numpy's argsort gives to equal probabilities, as long as it
  returns the indices sorted by ascending probability: with as many labels as
  probabilities, the selection returns the labels at the first three indices of the
  reversed argsort; these are at most three distinct indices, in order of probability
  descending, and no index that is not selected has a larger probability than a selected
  one; when there are at most three labels, all of them are returned. The order of labels
  with equal probabilities is the reverse of the order the argsort gives them: when it
  gives 0, 3, 1, 2 on the probabilities 0.1, 0.4, 0.4, 0.1, the labels A, B, C, D are
  selected as C, B, D.
\<close>

theorem top_jobs_selection:
  assumes "is_argsort probas (np_argsort probas)"
    and "length classes = length probas"
  shows "top_jobs np_argsort classes probas
       = Inr (map (\<lambda>i. classes ! i) (top_indices np_argsort probas)) \<and>
     top_indices np_argsort probas = take 3 (rev (np_argsort probas)) \<and>
     length (top_indices np_argsort probas) = min 3 (length probas) \<and>
     distinct (top_indices np_argsort probas) \<and>
     (\<forall>i\<in>set (top_indices np_argsort probas). i < length probas) \<and>
     sorted_wrt (\<lambda>i j. probas ! j \<le> probas ! i) (top_indices np_argsort probas) \<and>
     (\<forall>i\<in>set (top_indices np_argsort probas). \<forall>m<length probas.
        m \<notin> set (top_indices np_argsort probas) \<longrightarrow> probas ! m \<le> probas ! i) \<and>
     (length probas \<le> 3 \<longrightarrow>
        set (map (\<lambda>i. classes ! i) (top_indices np_argsort probas)) = set classes) \<and>
     (np_argsort [0.1, 0.4, 0.4, 0.1] = [0, 3, 1, 2] \<longrightarrow>
        top_jobs np_argsort [''A'', ''B'', ''C'', ''D''] [0.1, 0.4, 0.4, 0.1]
          = Inr [''C'', ''B'', ''D''])"
proof -
  note facts = top_indices_facts [where f = np_argsort and probas = probas, OF assms(1)]
  have range: "\<forall>i\<in>set (top_indices np_argsort probas). i < length probas"
    using facts(3) by auto
  have "top_jobs np_argsort classes probas
       = Inr (map (\<lambda>i. classes ! i) (top_indices np_argsort probas))"
    by (rule top_jobs_in_range [where f = np_argsort, OF assms])
  moreover have "\<forall>i\<in>set (top_indices np_argsort probas). \<forall>m<length probas.
        m \<notin> set (top_indices np_argsort probas) \<longrightarrow> probas ! m \<le> probas ! i"
    using top_indices_dominate [where f = np_argsort and probas = probas, OF assms(1)]
    by blast
  moreover have "length probas \<le> 3 \<longrightarrow>
        set (map (\<lambda>i. classes ! i) (top_indices np_argsort probas)) = set classes"
    using labels_all [where f = np_argsort and probas = probas, OF assms] by blast
  moreover have "np_argsort [0.1, 0.4, 0.4, 0.1] = [0, 3, 1, 2] \<longrightarrow>
        top_jobs np_argsort [''A'', ''B'', ''C'', ''D''] [0.1, 0.4, 0.4, 0.1]
          = Inr [''C'', ''B'', ''D'']"
    by (simp add: top_jobs_def top_indices_def getindex_def)
  moreover have "top_indices np_argsort probas = take 3 (rev (np_argsort probas))"
    by (simp add: top_indices_def)
  ultimately show ?thesis
    using range facts(1,2,4) by blast
qed

theorem top_jobs_selection_witness:
  "is_argsort [0.1, 0.4, 0.4, 0.1] (argsort_stable [0.1, 0.4, 0.4, 0.1]) \<and>
   length [''A'', ''B'', ''C'', ''D''] = length [0.1, 0.4, 0.4, 0.1 :: real] \<and>
   argsort_stable [0.1, 0.4, 0.4, 0.1] = [0, 3, 1, 2] \<and>
   top_jobs argsort_stable [''A'', ''B'', ''C'', ''D''] [0.1, 0.4, 0.4, 0.1]
     = Inr [''C'', ''B'', ''D''] \<and>
   top_indices argsort_stable [0.1, 0.4, 0.4, 0.1] = [2, 1, 3] \<and>
   0 \<notin> set (top_indices argsort_stable [0.1, 0.4, 0.4, 0.1]) \<and>
   is_argsort [0.3, 0.7] (argsort_stable [0.3, 0.7]) \<and>
   length [''A'', ''B''] = length [0.3, 0.7 :: real] \<and>
   top_jobs argsort_stable [''A'', ''B''] [0.3, 0.7] = Inr [''B'', ''A'']"
proof -
  have 1: "is_argsort [0.1, 0.4, 0.4, 0.1] (argsort_stable [0.1, 0.4, 0.4, 0.1])"
    and 2: "is_argsort [0.3, 0.7] (argsort_stable [0.3, 0.7])"
    by (rule argsort_stable_is_argsort)+
  have 3: "length [''A'', ''B'', ''C'', ''D''] = length [0.1, 0.4, 0.4, 0.1 :: real]"
    and 4: "length [''A'', ''B''] = length [0.3, 0.7 :: real]"
    by simp_all
  have a: "argsort_stable [0.1, 0.4, 0.4, 0.1] = [0, 3, 1, 2]"
    and b: "argsort_stable [0.3, 0.7] = [0, 1]"
    by (simp_all add: argsort_stable_def upt_rec)
  show ?thesis
    using 1 2
      top_jobs_selection [where np_argsort = argsort_stable
        and probas = "[0.1, 0.4, 0.4, 0.1]" and classes = "[''A'', ''B'', ''C'', ''D'']", OF 1 3]
      top_jobs_selection [where np_argsort = argsort_stable
        and probas = "[0.3, 0.7]" and classes = "[''A'', ''B'']", OF 2 4] a b
    by (simp add: top_indices_def)
qed

section \<open>Failure isolation\<close>




section \<open>The result record\<close>

text \<open>
  C7, as stated, fails: when the salary pipeline succeeds with the value -1.0, the salary
  \<open>try\<close> block returns that value, yet the result holds "N/A" and not the value rounded
  to two decimals (which is -1.0).
\<close>

theorem salary_entry_counterexample:
  "fst (salary_try (twin_df demo_profile (PyInt 32) (PyInt 34)) world_minus_one)
     = Inr (PyFloat (- 1.0)) \<and>
   py_round (- 1.0) 2 = - 1.0 \<and>
   fst (predict_future_twin argsort_stable demo_profile 24 world_minus_one) =
     Inr \<lparr>projected_age = 32, health_increase_percent = 10, predicted_salary = PyStr ''N/A'',
          recommended_jobs = [''C'', ''B'', ''D''], time_projection_months = 24\<rparr>"
proof -
  let ?df = "twin_df demo_profile (PyInt 32) (PyInt 34)"
  have s: "fst (salary_try ?df world_minus_one) = Inr (PyFloat (- 1.0))"
    by (simp add: fst_salary_try_row [OF demo_df_row] world_minus_one_def
        minus_one_pipeline_def getindex_def)
  have j: "fst (job_try argsort_stable ?df world_minus_one) = Inr [''C'', ''B'', ''D'']"
    by (simp add: fst_job_try_row [OF demo_df_row] world_minus_one_def
        minus_one_pipeline_def getindex_def top_jobs_def top_indices_def argsort_stable_def
        upt_rec)
  have r: "py_round (- 1.0) 2 = - 1.0"
    by (simp add: py_round_def fl_eval)
  have 1: "demo_profile ''age'' = Some (PyInt 30)"
    and 2: "demo_profile ''tenure_months'' = Some (PyInt 10)"
    by (simp_all add: demo_profile_def)
  have 4: "?df = twin_df demo_profile (PyInt (30 + 24 div 12)) (PyInt (10 + 24))"
    by simp
  have "fst (predict_future_twin argsort_stable demo_profile 24 world_minus_one) =
     Inr \<lparr>projected_age = 32, health_increase_percent = 10, predicted_salary = PyStr ''N/A'',
          recommended_jobs = [''C'', ''B'', ''D''], time_projection_months = 24\<rparr>"
    using twin_result [OF 1 2 demo_sleep_default 4, of argsort_stable world_minus_one,
        unfolded health_default_rounded] j s
    by simp
  then show ?thesis
    using s r by blast
qed

text \<open>
  C7, amended. For every well-formed profile (integer age and tenure, sleep hours absent,
  with the default 7.5, or a number within the double range, all seven feature columns
  present) and every horizon, the call returns a result in which: the projected age is
  the age plus the whole years of the horizon; the health increase is
  round((healthFactor - 1.0) * 100, 1), evaluated in doubles; the salary is the first
  prediction rounded to two decimals when the salary pipeline loads and predicts a float
  other than -1.0, and "N/A" when the load or the prediction raises or the prediction is
  exactly -1.0 or not a float; the jobs are the top-3 labels when the job pipeline loads
  and gives probabilities and classes and the selection succeeds, and ["N/A"] otherwise;
  the horizon is echoed.
\<close>

theorem projection_result_fields:
  assumes "p ''age'' = Some (PyInt a)"
    and "p ''tenure_months'' = Some (PyInt t)"
    and "py_number (dict_get p ''avg_sleep_hours'' (PyFloat 7.5)) = Inr s"
    and "df = twin_df p (PyInt (a + h div 12)) (PyInt (t + h))"
    and "select_columns df feature_columns = Inr X"
  shows "fst (predict_future_twin np_argsort p h w) =
     Inr \<lparr>projected_age = a + h div 12,
          health_increase_percent =
            py_round (fl (fl (predict_health_increase_double s - 1.0) * 100)) 1,
          predicted_salary =
            (case files w SALARY_MODEL_FILE of
               Inl e \<Rightarrow> PyStr ''N/A''
             | Inr sp \<Rightarrow>
                 (case predict sp X of
                    Inr (PyFloat v # vs) \<Rightarrow>
                      if v = - 1.0 then PyStr ''N/A'' else PyFloat (py_round v 2)
                  | _ \<Rightarrow> PyStr ''N/A'')),
          recommended_jobs =
            (case files w JOB_MODEL_FILE of
               Inl e \<Rightarrow> [''N/A'']
             | Inr jp \<Rightarrow>
                 (case predict_proba jp X of
                    Inr (probas # rest) \<Rightarrow>
                      (case classifier_classes jp of
                         Inr classes \<Rightarrow>
                           (case top_jobs np_argsort classes probas of
                              Inr jobs \<Rightarrow> jobs
                            | Inl e \<Rightarrow> [''N/A''])
                       | Inl e \<Rightarrow> [''N/A''])
                  | _ \<Rightarrow> [''N/A''])),
          time_projection_months = h\<rparr>"
proof -
  have sal: "salary_entry (case fst (salary_try df w) of Inr v \<Rightarrow> v | Inl e \<Rightarrow> PyFloat (- 1)) =
      (case files w SALARY_MODEL_FILE of
               Inl e \<Rightarrow> PyStr ''N/A''
             | Inr sp \<Rightarrow>
                 (case predict sp X of
                    Inr (PyFloat v # vs) \<Rightarrow>
                      if v = - 1.0 then PyStr ''N/A'' else PyFloat (py_round v 2)
                  | _ \<Rightarrow> PyStr ''N/A''))"
    by (simp add: fst_salary_try_row [OF assms(5)] getindex_def
        split: sum.splits list.splits pyval.splits)
  have job: "(case fst (job_try np_argsort df w) of Inr js \<Rightarrow> js | Inl e \<Rightarrow> [''N/A'']) =
      (case files w JOB_MODEL_FILE of
               Inl e \<Rightarrow> [''N/A'']
             | Inr jp \<Rightarrow>
                 (case predict_proba jp X of
                    Inr (probas # rest) \<Rightarrow>
                      (case classifier_classes jp of
                         Inr classes \<Rightarrow>
                           (case top_jobs np_argsort classes probas of
                              Inr jobs \<Rightarrow> jobs
                            | Inl e \<Rightarrow> [''N/A''])
                       | Inl e \<Rightarrow> [''N/A''])
                  | _ \<Rightarrow> [''N/A'']))"
    by (simp add: fst_job_try_row [OF assms(5)] getindex_def
        split: sum.splits list.splits)
  show ?thesis
    unfolding twin_result [OF assms(1-4)] sal job by (rule refl)
qed

theorem projection_result_fields_witness:
  "demo_profile_sleep ''age'' = Some (PyInt 30) \<and>
   demo_profile_sleep ''tenure_months'' = Some (PyInt 10) \<and>
   py_number (dict_get demo_profile_sleep ''avg_sleep_hours'' (PyFloat 7.5)) = Inr 6.75 \<and>
   select_columns (twin_df demo_profile_sleep (PyInt (30 + 24 div 12)) (PyInt (10 + 24)))
     feature_columns = Inr demo_row \<and>
   fst (predict_future_twin argsort_stable demo_profile_sleep 24 demo_world) =
     Inr \<lparr>projected_age = 32, health_increase_percent = fl 8.7,
          predicted_salary = PyFloat (fl 1234.56),
          recommended_jobs = [''C'', ''B'', ''D''], time_projection_months = 24\<rparr> \<and>
   demo_profile ''age'' = Some (PyInt 30) \<and>
   demo_profile ''tenure_months'' = Some (PyInt 10) \<and>
   py_number (dict_get demo_profile ''avg_sleep_hours'' (PyFloat 7.5)) = Inr 7.5 \<and>
   fst (predict_future_twin argsort_stable demo_profile 24 demo_world) =
     Inr \<lparr>projected_age = 32, health_increase_percent = 10,
          predicted_salary = PyFloat (fl 1234.56),
          recommended_jobs = [''C'', ''B'', ''D''], time_projection_months = 24\<rparr>"
proof -
  let ?df = "twin_df demo_profile_sleep (PyInt (30 + 24 div 12)) (PyInt (10 + 24))"
  let ?df' = "twin_df demo_profile (PyInt (30 + 24 div 12)) (PyInt (10 + 24))"
  have 1: "demo_profile_sleep ''age'' = Some (PyInt 30)"
    and 2: "demo_profile_sleep ''tenure_months'' = Some (PyInt 10)"
    by (simp_all add: demo_profile_sleep_def)
  note 3 = demo_sleep_675
  have 4: "?df = twin_df demo_profile_sleep (PyInt (30 + 24 div 12)) (PyInt (10 + 24))"
    by simp
  have 5: "select_columns ?df feature_columns = Inr demo_row"
    using demo_sleep_df_row by simp
  have d1: "demo_profile ''age'' = Some (PyInt 30)"
    and d2: "demo_profile ''tenure_months'' = Some (PyInt 10)"
    by (simp_all add: demo_profile_def)
  note d3 = demo_sleep_default
  have d4: "?df' = twin_df demo_profile (PyInt (30 + 24 div 12)) (PyInt (10 + 24))"
    by simp
  have d5: "select_columns ?df' feature_columns = Inr demo_row"
    using demo_df_row by simp
  have A: "fst (predict_future_twin argsort_stable demo_profile_sleep 24 demo_world) =
     Inr \<lparr>projected_age = 32, health_increase_percent = fl 8.7,
          predicted_salary = PyFloat (fl 1234.56),
          recommended_jobs = [''C'', ''B'', ''D''], time_projection_months = 24\<rparr>"
    using projection_result_fields [OF 1 2 3 4 5, of argsort_stable demo_world,
        unfolded health_675_rounded] top_jobs_demo salary_demo_rounded
    by (simp add: demo_world_def demo_pipeline_def)
  have B: "fst (predict_future_twin argsort_stable demo_profile 24 demo_world) =
     Inr \<lparr>projected_age = 32, health_increase_percent = 10,
          predicted_salary = PyFloat (fl 1234.56),
          recommended_jobs = [''C'', ''B'', ''D''], time_projection_months = 24\<rparr>"
    using projection_result_fields [OF d1 d2 d3 d4 d5, of argsort_stable demo_world,
        unfolded health_default_rounded] top_jobs_demo salary_demo_rounded
    by (simp add: demo_world_def demo_pipeline_def)
  show ?thesis
    using 1 2 3 5 d1 d2 d3 A B by blast
qed

text \<open>
  C9. When the salary pipeline loads and its first prediction is exactly -1.0, every call
  that returns a result returns one whose salary is "N/A", and the result is the same
  as the one returned when loading the salary pipeline raises: the result cannot tell a
  prediction of -1.0 from a failure.
\<close>

theorem minus_one_prediction_reads_unavailable:
  assumes "time_projection p h = Inr (pa, pt)"
    and "health_prediction p = Inr hp"
    and "select_columns (twin_df p pa pt) feature_columns = Inr X"
    and "files w SALARY_MODEL_FILE = Inr sp"
    and "predict sp X = Inr (PyFloat (- 1.0) # vs)"
  shows "\<exists>r. fst (predict_future_twin np_argsort p h w) = Inr r \<and>
     predicted_salary r = PyStr ''N/A'' \<and>
     fst (predict_future_twin np_argsort p h
       (w\<lparr>files := (files w)(SALARY_MODEL_FILE := Inl e)\<rparr>)) = Inr r"
proof -
  let ?df = "twin_df p pa pt"
  let ?w' = "w\<lparr>files := (files w)(SALARY_MODEL_FILE := Inl e)\<rparr>"
  obtain i where i: "py_int pa = Inr i"
    using time_projection_py_int [OF assms(1)] by blast
  have s: "fst (salary_try ?df w) = Inr (PyFloat (- 1))"
    using assms(4,5) by (simp add: fst_salary_try_row [OF assms(3)] getindex_def)
  have s': "fst (salary_try ?df ?w') = Inl e"
    by (simp add: fst_salary_try_row [OF assms(3)])
  have j: "fst (job_try np_argsort ?df ?w') = fst (job_try np_argsort ?df w)"
    using model_files_differ by (simp add: fst_job_try_row [OF assms(3)])
  have "fst (predict_future_twin np_argsort p h w) =
      Inr \<lparr>projected_age = i, health_increase_percent = py_round hp 1,
           predicted_salary = PyStr ''N/A'',
           recommended_jobs = fst (job_classification np_argsort ?df w),
           time_projection_months = h\<rparr>"
    using s by (simp add: fst_predict_future_twin [OF assms(1,2) i] fst_salary_prediction)
  moreover have "fst (predict_future_twin np_argsort p h ?w') =
      Inr \<lparr>projected_age = i, health_increase_percent = py_round hp 1,
           predicted_salary = PyStr ''N/A'',
           recommended_jobs = fst (job_classification np_argsort ?df w),
           time_projection_months = h\<rparr>"
    using s' j
    by (simp add: fst_predict_future_twin [OF assms(1,2) i] fst_salary_prediction
        fst_job_classification)
  ultimately show ?thesis by simp
qed

theorem minus_one_prediction_reads_unavailable_witness:
  "time_projection demo_profile 24 = Inr (PyInt 32, PyInt 34) \<and>
   health_prediction demo_profile
     = Inr (fl (fl (predict_health_increase_double 7.5 - 1.0) * 100)) \<and>
   select_columns (twin_df demo_profile (PyInt 32) (PyInt 34)) feature_columns = Inr demo_row \<and>
   files world_minus_one SALARY_MODEL_FILE = Inr minus_one_pipeline \<and>
   predict minus_one_pipeline demo_row = Inr [PyFloat (- 1.0)] \<and>
   (\<exists>r. fst (predict_future_twin argsort_stable demo_profile 24 world_minus_one) = Inr r \<and>
     predicted_salary r = PyStr ''N/A'' \<and>
     fst (predict_future_twin argsort_stable demo_profile 24
       (world_minus_one\<lparr>files := (files world_minus_one)
          (SALARY_MODEL_FILE := Inl (ArtifactError ''file not found''))\<rparr>)) = Inr r)"
proof -
  have 1: "time_projection demo_profile 24 = Inr (PyInt 32, PyInt 34)"
    by (simp add: time_projection_def getitem_def demo_profile_def)
  have 2: "health_prediction demo_profile
      = Inr (fl (fl (predict_health_increase_double 7.5 - 1.0) * 100))"
    by (rule health_prediction_number [OF demo_sleep_default])
  have 3: "select_columns (twin_df demo_profile (PyInt 32) (PyInt 34)) feature_columns = Inr demo_row"
    by (rule demo_df_row)
  have 4: "files world_minus_one SALARY_MODEL_FILE = Inr minus_one_pipeline"
    by (simp add: world_minus_one_def)
  have 5: "predict minus_one_pipeline demo_row = Inr (PyFloat (- 1.0) # [])"
    by (simp add: minus_one_pipeline_def)
  have 6: "predict minus_one_pipeline demo_row = Inr [PyFloat (- 1.0)]"
    using 5 by simp
  show ?thesis
    using 1 2 3 4 6
      minus_one_prediction_reads_unavailable [OF 1 2 3 4 5, of argsort_stable
        "ArtifactError ''file not found''"]
    by blast
qed

section \<open>Determinism\<close>

text \<open>
  C8. A call changes nothing of the world but the trace, to which it appends; its result
  depends on the profile, the horizon and the artifacts only, not on the trace. So a
  second call with the same profile and horizon, made in the world the first call left,
  returns the same result.
\<close>

theorem predict_future_twin_deterministic:
  "(\<exists>es. snd (predict_future_twin np_argsort p h w) = w\<lparr>trace := trace w @ es\<rparr>) \<and>
   (files w' = files w \<longrightarrow>
      fst (predict_future_twin np_argsort p h w') = fst (predict_future_twin np_argsort p h w)) \<and>
   fst (predict_future_twin np_argsort p h (snd (predict_future_twin np_argsort p h w)))
     = fst (predict_future_twin np_argsort p h w)"
proof (intro conjI impI)
  show "\<exists>es. snd (predict_future_twin np_argsort p h w) = w\<lparr>trace := trace w @ es\<rparr>"
    by (rule trace_predict_future_twin)
  then obtain es where "snd (predict_future_twin np_argsort p h w) = w\<lparr>trace := trace w @ es\<rparr>"
    by blast
  then have "files (snd (predict_future_twin np_argsort p h w)) = files w"
    by simp
  then show "fst (predict_future_twin np_argsort p h (snd (predict_future_twin np_argsort p h w)))
      = fst (predict_future_twin np_argsort p h w)"
    by (rule fst_predict_future_twin_files)
next
  assume "files w' = files w"
  then show "fst (predict_future_twin np_argsort p h w')
      = fst (predict_future_twin np_argsort p h w)"
    by (rule fst_predict_future_twin_files)
qed

theorem predict_future_twin_deterministic_witness:
  "files (demo_world\<lparr>trace := [JoblibLoad SALARY_MODEL_FILE]\<rparr>) = files demo_world \<and>
   fst (predict_future_twin argsort_stable demo_profile 24
         (demo_world\<lparr>trace := [JoblibLoad SALARY_MODEL_FILE]\<rparr>))
     = fst (predict_future_twin argsort_stable demo_profile 24 demo_world) \<and>
   fst (predict_future_twin argsort_stable demo_profile 24
         (snd (predict_future_twin argsort_stable demo_profile 24 demo_world)))
     = fst (predict_future_twin argsort_stable demo_profile 24 demo_world)"
  using predict_future_twin_deterministic [of argsort_stable demo_profile 24 demo_world
      "demo_world\<lparr>trace := [JoblibLoad SALARY_MODEL_FILE]\<rparr>"]
  by simp

end
